theory Spec2Isabelle
  imports Complex_Main "HOL-Library.Sublist" "HOL-Library.Multiset"
begin

section \<open>Data model (types/journal-types.ts)\<close>

text \<open>
  The mood journal keeps a flat list of entries in the browser's local storage and
  derives every statistic from that list. The embedding follows the TypeScript types:
  a string-literal union is a datatype whose constructors carry the literals' names,
  an object type is a record, an optional field is an \<open>option\<close>.

  Numbers: timestamps, temperatures and counts are integers of the source (epoch
  milliseconds, rounded degrees, array lengths) and are \<open>int\<close> or \<open>nat\<close> here; sums and
  differences of integers below \<open>2^53\<close> are exact in the source's doubles. What the
  analytics compute from them (a percentage, a sum of temperatures, a mean) is a double,
  that is the exact result of each operation rounded to 53 significant bits, and the
  model rounds in the same way (section on the arithmetic on doubles).

  Strings: a \<open>string\<close> is the sequence of code units of the source string, one
  \<open>char\<close> per code unit below 256; the degree sign of the CSV export is the code
  unit 0xB0.
\<close>

datatype Mood = happy | neutral | sad | angry | sick

record Weather =
  temp :: int
  condition :: string
  icon :: string
  location :: "string option"

text \<open>
  The fields \<open>id\<close> and \<open>note\<close> of the source carry a suffix here, since both names are
  taken in Isabelle.
\<close>

record JournalEntry =
  id_e :: string
  date :: string
  mood :: Mood
  note_e :: string
  weather :: Weather
  timestamp :: int


datatype ExportFormat = csv | json

section \<open>Time-range filter (services/journal-service.ts)\<close>

text \<open>
  \<open>filterEntriesByTimeRange\<close> reads the clock once (\<open>Date.now()\<close>); the reading is the
  first argument. The console output of the source is not modelled. The last
  \<open>else\<close> of the source (a range that is none of the three) is excluded by the type.
\<close>

definition msInDay :: int where
  "msInDay = 86400000"


section \<open>Strings and numbers of the runtime\<close>

text \<open>
  The template literals of the source turn a mood into its literal and an integer into
  its decimal digits. \<open>numberToString\<close> is \<open>Number.prototype.toString\<close> on the integers
  the program handles (below \<open>10^21\<close>, where the runtime switches to exponents).
\<close>

fun moodString :: "Mood \<Rightarrow> string" where
  "moodString happy = ''happy''"
| "moodString neutral = ''neutral''"
| "moodString sad = ''sad''"
| "moodString angry = ''angry''"
| "moodString sick = ''sick''"

fun digits :: "nat \<Rightarrow> string" where
  "digits n = (if n < 10 then [''0123456789'' ! n]
               else digits (n div 10) @ [''0123456789'' ! (n mod 10)])"

declare digits.simps [simp del]

definition numberToString :: "int \<Rightarrow> string" where
  "numberToString i = (if i < 0 then CHR ''-'' # digits (nat (- i)) else digits (nat i))"

text \<open>
  \<open>String.prototype.trim\<close> removes white space and line terminators at both ends; these
  are the ones among the code units below 256.
\<close>

definition isWhiteSpace :: "char \<Rightarrow> bool" where
  "isWhiteSpace c = (c \<in> set [CHR 0x09, CHR 0x0A, CHR 0x0B, CHR 0x0C, CHR 0x0D, CHR 0x20, CHR 0xA0])"

definition trim :: "string \<Rightarrow> string" where
  "trim s = rev (dropWhile isWhiteSpace (rev (dropWhile isWhiteSpace s)))"

text \<open>\<open>Array.prototype.join\<close> on strings.\<close>

fun join :: "string \<Rightarrow> string list \<Rightarrow> string" where
  "join sep [] = []"
| "join sep [x] = x"
| "join sep (x # y # ys) = x @ sep @ join sep (y # ys)"


section \<open>Arithmetic on doubles\<close>

text \<open>
  A Number of the runtime is an IEEE 754 double. A finite double is represented here by
  the rational number that is its value. The sum, the quotient and the product of two
  doubles are the exact result rounded to the nearest double, a tie going to the even
  significand: \<open>toDouble\<close> does this rounding. For a magnitude \<open>a\<close> with
  \<open>2^e \<le> a < 2^(e+1)\<close> the doubles are the multiples of \<open>2^(e-52)\<close>; \<open>exponentOf\<close> computes
  \<open>e\<close> from the integer part of \<open>a\<close> when \<open>a \<ge> 1\<close> and from the integer part of \<open>1/a\<close>
  otherwise. The range of the
  exponent is not limited: the model is that of the runtime for magnitudes from
  \<open>2^-1022\<close> up to \<open>2^1024\<close>, and no percentage of the program leaves this range on arrays
  of fewer than \<open>2^32\<close> elements.
\<close>

fun ilog2 :: "nat \<Rightarrow> nat" where
  "ilog2 n = (if n < 2 then 0 else Suc (ilog2 (n div 2)))"

declare ilog2.simps [simp del]

definition exponentOf :: "rat \<Rightarrow> int" where
  "exponentOf a =
     (if 1 \<le> a then int (ilog2 (nat \<lfloor>a\<rfloor>))
      else - int (Suc (ilog2 (nat (\<lceil>1 / a\<rceil> - 1)))))"

definition roundHalfEven :: "rat \<Rightarrow> int" where
  "roundHalfEven m =
     (let f = \<lfloor>m\<rfloor>; r = m - of_int f
      in if r < 1 / 2 then f else if 1 / 2 < r then f + 1 else if even f then f else f + 1)"

definition toDouble :: "rat \<Rightarrow> rat" where
  "toDouble q =
     (if q = 0 then 0
      else let a = \<bar>q\<bar>; ulp = 2 powi (exponentOf a - 52)
           in sgn q * of_int (roundHalfEven (a / ulp)) * ulp)"


definition jsDivide :: "rat \<Rightarrow> rat \<Rightarrow> rat" where
  "jsDivide x y = toDouble (x / y)"

definition jsTimes :: "rat \<Rightarrow> rat \<Rightarrow> rat" where
  "jsTimes x y = toDouble (x * y)"

section \<open>Journal store (services/journal-service.ts)\<close>

text \<open>
  The store is one item of local storage. The item is a text; the model keeps what
  \<open>JSON.parse\<close> and the cast to \<open>JournalEntry[]\<close> make of it: either the array of
  entries it encodes, or nothing usable (a text that does not parse, the empty text
  included, or that parses to something other than an array, on which \<open>sort\<close> is not a
  function). \<open>None\<close> is the absent item. \<open>JSON.stringify\<close> of an entry list is the text
  that parses back to that list. Writes are taken to succeed: the quota of the storage is
  not modelled.
\<close>

datatype StoredText = NotAnArray | EntriesJson "JournalEntry list"

type_synonym Storage = "StoredText option"

text \<open>
  \<open>entries.sort((a, b) => b.timestamp - a.timestamp)\<close>: the sort of the runtime is
  stable, as the insertion sort \<open>sort_key\<close> is; the key is the negated timestamp. Both
  failures of the \<open>try\<close> block end in the \<open>catch\<close> that returns the empty array.
\<close>

definition getJournalEntries :: "Storage \<Rightarrow> JournalEntry list" where
  "getJournalEntries storage =
     (case storage of
        None \<Rightarrow> []
      | Some NotAnArray \<Rightarrow> []
      | Some (EntriesJson entries) \<Rightarrow> sort_key (\<lambda>a. - timestamp a) entries)"

text \<open>
  The argument of \<open>saveJournalEntry\<close>. A \<open>Date\<close> is its epoch milliseconds
  (\<open>getTime()\<close>); the field names carry a suffix to keep them apart from the entry's.
\<close>

record EntryData =
  date_d :: int
  mood_d :: Mood
  note_d :: string
  weather_d :: Weather

text \<open>
  \<open>saveJournalEntry\<close> takes the formatter of date-fns for the pattern
  \<open>"MMMM d, yyyy"\<close> as \<open>dateFormat\<close> and the reading of \<open>Date.now()\<close> as \<open>now\<close>. It returns
  the new entry and the storage after \<open>setItem\<close>.
\<close>

definition saveJournalEntry ::
    "(int \<Rightarrow> string) \<Rightarrow> int \<Rightarrow> EntryData \<Rightarrow> Storage \<Rightarrow> JournalEntry \<times> Storage" where
  "saveJournalEntry dateFormat now entryData storage =
     (let newEntry = \<lparr> id_e = numberToString now,
                        date = dateFormat (date_d entryData),
                        mood = mood_d entryData,
                        note_e = note_d entryData,
                        weather = weather_d entryData,
                        timestamp = date_d entryData \<rparr>;
          existingEntries = getJournalEntries storage;
          updatedEntries = newEntry # existingEntries
      in (newEntry, Some (EntriesJson updatedEntries)))"

text \<open>
  \<open>addSampleEntries\<close> reads the clock eight times: \<open>new Date()\<close> for \<open>now\<close>, \<open>new Date()\<close>
  for the first sample, and \<open>Date.now()\<close> in each of the six saves. \<open>clock k\<close> is the
  \<open>k\<close>-th reading.
\<close>

definition sampleEntries :: "(nat \<Rightarrow> int) \<Rightarrow> EntryData list" where
  "sampleEntries clock =
     (let now = clock 0 in
      [ \<lparr> date_d = clock 1, mood_d = happy, note_d = ''Feeling great today!'',
          weather_d = \<lparr> temp = 25, condition = ''Clear'', icon = ''01d'', location = Some ''Sample City'' \<rparr> \<rparr>,
        \<lparr> date_d = now - 2 * msInDay, mood_d = neutral, note_d = ''Just an ordinary day'',
          weather_d = \<lparr> temp = 22, condition = ''Clouds'', icon = ''02d'', location = Some ''Sample City'' \<rparr> \<rparr>,
        \<lparr> date_d = now - 5 * msInDay, mood_d = sad, note_d = ''Not feeling my best'',
          weather_d = \<lparr> temp = 18, condition = ''Rain'', icon = ''10d'', location = Some ''Sample City'' \<rparr> \<rparr>,
        \<lparr> date_d = now - 10 * msInDay, mood_d = angry, note_d = ''Frustrated with work'',
          weather_d = \<lparr> temp = 27, condition = ''Clear'', icon = ''01d'', location = Some ''Sample City'' \<rparr> \<rparr>,
        \<lparr> date_d = now - 20 * msInDay, mood_d = happy, note_d = ''Had a great weekend!'',
          weather_d = \<lparr> temp = 24, condition = ''Clouds'', icon = ''02d'', location = Some ''Sample City'' \<rparr> \<rparr>,
        \<lparr> date_d = now - 40 * msInDay, mood_d = sick, note_d = ''Caught a cold'',
          weather_d = \<lparr> temp = 15, condition = ''Rain'', icon = ''10d'', location = Some ''Sample City'' \<rparr> \<rparr> ])"

fun saveEach ::
    "(int \<Rightarrow> string) \<Rightarrow> (nat \<Rightarrow> int) \<Rightarrow> nat \<Rightarrow> EntryData list \<Rightarrow> Storage \<Rightarrow> Storage" where
  "saveEach dateFormat clock k [] storage = storage"
| "saveEach dateFormat clock k (entry # rest) storage =
     saveEach dateFormat clock (Suc k) rest
       (snd (saveJournalEntry dateFormat (clock k) entry storage))"

definition addSampleEntries :: "(int \<Rightarrow> string) \<Rightarrow> (nat \<Rightarrow> int) \<Rightarrow> Storage \<Rightarrow> Storage" where
  "addSampleEntries dateFormat clock storage =
     saveEach dateFormat clock 2 (sampleEntries clock) storage"

section \<open>Saving from the page (app/page.tsx)\<close>

text \<open>
  The part of the page's state that \<open>handleSaveEntry\<close> reads and writes, and the title of
  the toast it shows.
\<close>

record PageState =
  selectedDate :: int
  selectedMood :: "Mood option"
  note_p :: string
  weather_p :: "Weather option"
  entries_p :: "JournalEntry list"

datatype Toast = PleaseSelectAMood | WeatherDataNotAvailable | EntrySaved

definition handleSaveEntry ::
    "(int \<Rightarrow> string) \<Rightarrow> int \<Rightarrow> PageState \<Rightarrow> Storage \<Rightarrow> Toast \<times> PageState \<times> Storage" where
  "handleSaveEntry dateFormat now st storage =
     (case selectedMood st of
        None \<Rightarrow> (PleaseSelectAMood, st, storage)
      | Some m \<Rightarrow>
          (case weather_p st of
             None \<Rightarrow> (WeatherDataNotAvailable, st, storage)
           | Some w \<Rightarrow>
               let (newEntry, storage') =
                     saveJournalEntry dateFormat now
                       \<lparr> date_d = selectedDate st,
                         mood_d = m,
                         note_d = (if trim (note_p st) \<noteq> [] then trim (note_p st)
                                   else ''Feeling '' @ moodString m @ '' today''),
                         weather_d = w \<rparr>
                       storage
               in (EntrySaved,
                   st \<lparr> entries_p := newEntry # entries_p st, selectedMood := None, note_p := [] \<rparr>,
                   storage')))"

section \<open>Export (services/journal-service.ts)\<close>

text \<open>
  \<open>exportJournalEntries\<close> throws \<open>Error("No entries to export")\<close> on an empty list;
  otherwise it builds the text, hands it to the browser as a download and returns the
  file name. The model returns the download as a value. \<open>currentDate\<close> is today's date
  as \<open>"yyyy-MM-dd"\<close>; \<open>stringify\<close> is \<open>JSON.stringify(entries, null, 2)\<close> of the runtime.
\<close>

datatype ExportError = NoEntriesToExport

record Download =
  fileName :: string
  dataStr :: string
  mimeType :: string

text \<open>\<open>note.replace(/"/g, '""')\<close>: every double quote is written twice.\<close>

definition replaceQuotes :: "string \<Rightarrow> string" where
  "replaceQuotes s = concat (map (\<lambda>c. if c = CHR 0x22 then [c, c] else [c]) s)"

text \<open>\<open>entry.weather.location || "Unknown"\<close>: an absent and an empty location are both falsy.\<close>

definition locationOrUnknown :: "string option \<Rightarrow> string" where
  "locationOrUnknown l = (case l of None \<Rightarrow> ''Unknown'' | Some s \<Rightarrow> (if s = [] then ''Unknown'' else s))"

definition csvRow :: "JournalEntry \<Rightarrow> string" where
  \<open>csvRow entry =
     ''"'' @ date entry @ ''","'' @ moodString (mood entry) @ ''","''
       @ replaceQuotes (note_e entry) @ ''","''
       @ numberToString (temp (weather entry)) @ [CHR 0xB0] @ ''C","''
       @ condition (weather entry) @ ''","''
       @ locationOrUnknown (location (weather entry)) @ ''"''\<close>

definition headers :: string where
  "headers = ''Date,Mood,Note,Temperature,Weather Condition,Location'' @ [CHR 0x0A]"

definition exportJournalEntries ::
    "(JournalEntry list \<Rightarrow> string) \<Rightarrow> string \<Rightarrow> JournalEntry list \<Rightarrow> ExportFormat
       \<Rightarrow> ExportError + Download" where
  "exportJournalEntries stringify currentDate entries fmt =
     (if length entries = 0 then Inl NoEntriesToExport
      else if fmt = csv then
        Inr \<lparr> fileName = ''moodmate-journal-'' @ currentDate @ ''.csv'',
              dataStr = headers @ join [CHR 0x0A] (map csvRow entries),
              mimeType = ''text/csv'' \<rparr>
      else
        Inr \<lparr> fileName = ''moodmate-journal-'' @ currentDate @ ''.json'',
              dataStr = stringify entries,
              mimeType = ''application/json'' \<rparr>)"

section \<open>Mood distribution (the Mood Trends component)\<close>

text \<open>
  \<open>moodStats\<close> counts the moods into an object that starts empty, so a mood that does
  not occur has no count and reads as \<open>undefined || 0\<close>. The rows carry a label, an emoji
  and a colour class besides; these constants of the presentation are left out.
\<close>

record MoodStat =
  mood_s :: Mood
  count_s :: nat
  percentage :: rat

definition allMoods :: "Mood list" where
  "allMoods = [happy, neutral, sad, angry, sick]"

definition orZero :: "nat option \<Rightarrow> nat" where
  "orZero v = (case v of None \<Rightarrow> 0 | Some n \<Rightarrow> n)"

definition moodCountsOf :: "JournalEntry list \<Rightarrow> (Mood \<rightharpoonup> nat)" where
  "moodCountsOf entries =
     fold (\<lambda>entry acc. acc(mood entry \<mapsto> orZero (acc (mood entry)) + 1)) entries Map.empty"

definition moodStats :: "JournalEntry list \<Rightarrow> MoodStat list" where
  "moodStats entries =
     (let counts = moodCountsOf entries;
          totalEntries = length entries
      in sort_key (\<lambda>a. - percentage a)
           (map (\<lambda>m. let count = orZero (counts m);
                          pct = (if totalEntries > 0
                                 then jsTimes (jsDivide (of_nat count) (of_nat totalEntries)) 100
                                 else 0)
                      in \<lparr> mood_s = m, count_s = count, percentage = pct \<rparr>)
                allMoods))"

section \<open>Weather correlation (the Weather Correlation component)\<close>


record CorrelationRow =
  condition_c :: string
  totalEntries :: nat
  dominantMood :: Mood
  dominantPercentage :: int
  averageTemp :: int








section \<open>The CSV text as the specification words it\<close>

text \<open>
  Two notions the specification uses to describe the exported text, defined here to
  compare the export with them. The lines of a text are its pieces between line feeds.
  The CSV of the specification has the header row and one row per entry, every one of
  the six fields between double quotes with its own double quotes doubled.
\<close>

fun splitLines :: "string \<Rightarrow> string list" where
  "splitLines [] = [[]]"
| "splitLines (c # cs) =
     (if c = CHR 0x0A then [] # splitLines cs
      else (case splitLines cs of [] \<Rightarrow> [[c]] | l # ls \<Rightarrow> (c # l) # ls))"

definition exportedLines :: "ExportError + Download \<Rightarrow> string list" where
  "exportedLines r = (case r of Inl err \<Rightarrow> [] | Inr d \<Rightarrow> splitLines (dataStr d))"

definition csvFields :: "JournalEntry \<Rightarrow> string list" where
  "csvFields entry =
     [date entry, moodString (mood entry), note_e entry,
      numberToString (temp (weather entry)) @ [CHR 0xB0] @ ''C'',
      condition (weather entry), locationOrUnknown (location (weather entry))]"

definition specCsvField :: "string \<Rightarrow> string" where
  \<open>specCsvField s = ''"'' @ replaceQuotes s @ ''"''\<close>

definition specCsv :: "JournalEntry list \<Rightarrow> string" where
  "specCsv entries =
     ''Date,Mood,Note,Temperature,Weather Condition,Location'' @ [CHR 0x0A]
       @ join [CHR 0x0A] (map (\<lambda>entry. join '','' (map specCsvField (csvFields entry))) entries)"

section \<open>The order of the moods\<close>

text \<open>
  The position of a mood in the enumeration happy, neutral, sad, angry, sick, which is
  the order of \<open>allMoods\<close> and of the keys of the count object of a weather group.
\<close>

fun moodIndex :: "Mood \<Rightarrow> nat" where
  "moodIndex happy = 0"
| "moodIndex neutral = 1"
| "moodIndex sad = 2"
| "moodIndex angry = 3"
| "moodIndex sick = 4"

section \<open>Example data\<close>

text \<open>An entry with a given mood, note, temperature, condition, location and timestamp.\<close>

definition exampleEntry ::
    "Mood \<Rightarrow> string \<Rightarrow> int \<Rightarrow> string \<Rightarrow> string option \<Rightarrow> int \<Rightarrow> JournalEntry" where
  "exampleEntry m n t c l ts =
     \<lparr> id_e = ''1743500000000'', date = ''April 1, 2025'', mood = m, note_e = n,
       weather = \<lparr> temp = t, condition = c, icon = ''01d'', location = l \<rparr>,
       timestamp = ts \<rparr>"

text \<open>A formatter for the examples: every date reads as the first of April 2025.\<close>

definition exampleDateFormat :: "int \<Rightarrow> string" where
  "exampleDateFormat d = ''April 1, 2025''"

text \<open>A stand-in for \<open>JSON.stringify\<close> in the examples; the CSV export does not call it.\<close>

definition exampleStringify :: "JournalEntry list \<Rightarrow> string" where
  "exampleStringify entries = ''[]''"

section \<open>Properties of the time-range filter\<close>









section \<open>Properties of the journal store\<close>

lemma sort_descending:
  fixes f :: "'a \<Rightarrow> 'b::linordered_idom"
  shows "sorted_wrt (\<lambda>a b. f a \<ge> f b) (sort_key (\<lambda>a. - f a) xs)"
proof -
  have "sorted (map (\<lambda>a. - f a) (sort_key (\<lambda>a. - f a) xs))"
    by (rule sorted_sort_key)
  then show ?thesis
    by (simp add: sorted_map)
qed

text \<open>
  C6. Whatever the storage holds, \<open>getJournalEntries\<close> returns a list whose timestamps
  never increase; on a stored array it returns the stored entries (each as often as it
  is stored), and it returns the empty list when the item is absent or is not the text of
  an array. The result is a plain list in each case: no error comes out.
\<close>

theorem list_sorted_descending:
  "sorted_wrt (\<lambda>a b. timestamp a \<ge> timestamp b) (getJournalEntries storage)
   \<and> mset (getJournalEntries (Some (EntriesJson entries))) = mset entries
   \<and> getJournalEntries None = []
   \<and> getJournalEntries (Some NotAnArray) = []"
proof -
  have "sorted_wrt (\<lambda>a b. timestamp a \<ge> timestamp b) (getJournalEntries storage)"
  proof (cases storage)
    case None
    then show ?thesis by (simp add: getJournalEntries_def)
  next
    case (Some t)
    then show ?thesis
      by (cases t) (simp_all add: getJournalEntries_def sort_descending)
  qed
  then show ?thesis
    by (simp add: getJournalEntries_def)
qed

theorem list_sorted_descending_witness:
  "getJournalEntries (Some (EntriesJson
      [exampleEntry happy ''a'' 20 ''Clear'' None 100,
       exampleEntry sad ''b'' 10 ''Rain'' None 300,
       exampleEntry sick ''c'' 5 ''Rain'' None 200]))
   = [exampleEntry sad ''b'' 10 ''Rain'' None 300,
      exampleEntry sick ''c'' 5 ''Rain'' None 200,
      exampleEntry happy ''a'' 20 ''Clear'' None 100]"
  using list_sorted_descending [of "Some (EntriesJson
      [exampleEntry happy ''a'' 20 ''Clear'' None 100,
       exampleEntry sad ''b'' 10 ''Rain'' None 300,
       exampleEntry sick ''c'' 5 ''Rain'' None 200])"]
  by (simp add: getJournalEntries_def exampleEntry_def)

lemma set_getJournalEntries: "set (getJournalEntries (Some (EntriesJson es))) = set es"
  by (simp add: getJournalEntries_def)

lemma distinct_map_getJournalEntries:
  "distinct (map g (getJournalEntries (Some (EntriesJson es)))) = distinct (map g es)"
proof -
  have "mset (map g (getJournalEntries (Some (EntriesJson es)))) = mset (map g es)"
    by (simp add: getJournalEntries_def)
  then show ?thesis
    by (rule mset_eq_imp_distinct_iff)
qed

lemma two_saves_one_reading:
  "\<not> distinct (map id_e (getJournalEntries
        (snd (saveJournalEntry fmt now d2 (snd (saveJournalEntry fmt now d1 storage))))))"
  by (simp add: saveJournalEntry_def Let_def distinct_map_getJournalEntries set_getJournalEntries)

text \<open>
  C1. The id of a new entry is the decimal text of \<open>Date.now()\<close> and nothing else, so the
  ids of the store are not pairwise distinct: two saves that read the same millisecond
  store two entries with one id, whatever the storage held and whatever is saved. The
  loop of \<open>addSampleEntries\<close> does six saves in a row; when the clock does not advance
  between them the store ends with entries that share an id, and on an empty store with
  the clock at 1743500000000 all six ids are \<open>"1743500000000"\<close>.
\<close>

theorem same_millisecond_same_id:
  "\<not> distinct (map id_e (getJournalEntries
        (snd (saveJournalEntry fmt now d2 (snd (saveJournalEntry fmt now d1 storage))))))
   \<and> \<not> distinct (map id_e (getJournalEntries (addSampleEntries fmt (\<lambda>k. now) storage)))
   \<and> map id_e (getJournalEntries (addSampleEntries exampleDateFormat (\<lambda>k. 1743500000000) None))
       = [''1743500000000'', ''1743500000000'', ''1743500000000'',
          ''1743500000000'', ''1743500000000'', ''1743500000000'']"
proof -
  have "\<not> distinct (map id_e (getJournalEntries (addSampleEntries fmt (\<lambda>k. now) storage)))"
    unfolding addSampleEntries_def sampleEntries_def Let_def saveEach.simps
    by (rule two_saves_one_reading)
  moreover have
    "map id_e (getJournalEntries (addSampleEntries exampleDateFormat (\<lambda>k. 1743500000000) None))
       = [''1743500000000'', ''1743500000000'', ''1743500000000'',
          ''1743500000000'', ''1743500000000'', ''1743500000000'']"
    by (simp add: addSampleEntries_def sampleEntries_def Let_def saveJournalEntry_def
        getJournalEntries_def numberToString_def digits.simps msInDay_def)
  ultimately show ?thesis
    using two_saves_one_reading by blast
qed

lemma trim_empty_iff: "trim s = [] \<longleftrightarrow> (\<forall>c \<in> set s. isWhiteSpace c)"
proof -
  have "trim s = [] \<longleftrightarrow> (\<forall>c \<in> set (dropWhile isWhiteSpace s). isWhiteSpace c)"
    by (simp add: trim_def)
  also have "\<dots> \<longleftrightarrow> dropWhile isWhiteSpace s = []"
    by (metis hd_dropWhile list.set_sel(1) empty_iff list.set(1))
  also have "\<dots> \<longleftrightarrow> (\<forall>c \<in> set s. isWhiteSpace c)"
    by simp
  finally show ?thesis .
qed

text \<open>
  C3, as stated: the store's save replaces an empty note by the default. It does not:
  \<open>saveJournalEntry\<close> with the note \<open>""\<close> and the mood \<open>happy\<close> persists the note \<open>""\<close>.
\<close>

theorem save_keeps_empty_note_counterexample:
  "map note_e (getJournalEntries (snd (saveJournalEntry exampleDateFormat 1743500000000
       \<lparr> date_d = 1743500000000, mood_d = happy, note_d = '''',
         weather_d = \<lparr> temp = 22, condition = ''Clear'', icon = ''01d'', location = Some ''New York'' \<rparr> \<rparr>
       None)))
     = ['''']
   \<and> map note_e (getJournalEntries (snd (saveJournalEntry exampleDateFormat 1743500000000
       \<lparr> date_d = 1743500000000, mood_d = happy, note_d = '''',
         weather_d = \<lparr> temp = 22, condition = ''Clear'', icon = ''01d'', location = Some ''New York'' \<rparr> \<rparr>
       None)))
     \<noteq> [''Feeling happy today'']"
  by (simp add: saveJournalEntry_def Let_def getJournalEntries_def)

text \<open>
  C3, amended. The page's \<open>handleSaveEntry\<close> does the trimming and the substitution
  before it calls the store: with a mood selected and the weather loaded, the entry it
  puts in front of the stored list has the selected mood and, as its note, the text
  \<open>"Feeling {mood} today"\<close> when the typed note is empty or white space only, and the
  trimmed note otherwise. \<open>saveJournalEntry\<close> itself persists the note it is given.
\<close>

theorem default_note_on_page_save:
  assumes "selectedMood st = Some m" and "weather_p st = Some w"
  shows "(\<exists>newEntry st'.
           handleSaveEntry fmt now st storage
             = (EntrySaved, st', Some (EntriesJson (newEntry # getJournalEntries storage)))
           \<and> mood newEntry = m
           \<and> note_e newEntry = (if \<forall>c \<in> set (note_p st). isWhiteSpace c
                                 then ''Feeling '' @ moodString m @ '' today''
                                 else trim (note_p st)))
         \<and> note_e (fst (saveJournalEntry fmt now d storage)) = note_d d"
  using assms
  by (simp add: handleSaveEntry_def saveJournalEntry_def Let_def trim_empty_iff)

theorem default_note_on_page_save_witness:
  "map note_e (getJournalEntries (snd (snd (handleSaveEntry exampleDateFormat 1743500000000
      \<lparr> selectedDate = 1743500000000, selectedMood = Some happy, note_p = '''',
        weather_p = Some \<lparr> temp = 22, condition = ''Clear'', icon = ''01d'', location = Some ''New York'' \<rparr>,
        entries_p = [] \<rparr> None))))
   = [''Feeling happy today'']"
proof -
  let ?w = "\<lparr> temp = 22, condition = ''Clear'', icon = ''01d'', location = Some ''New York'' \<rparr>"
  let ?st = "\<lparr> selectedDate = 1743500000000, selectedMood = Some happy, note_p = '''',
               weather_p = Some ?w, entries_p = [] \<rparr>"
  have h1: "selectedMood ?st = Some happy" by simp
  have h2: "weather_p ?st = Some ?w" by simp
  from default_note_on_page_save [OF h1 h2, of exampleDateFormat 1743500000000 None]
  obtain newEntry st' where
    r: "handleSaveEntry exampleDateFormat 1743500000000 ?st None
          = (EntrySaved, st', Some (EntriesJson (newEntry # getJournalEntries None)))"
    and n: "note_e newEntry = (if \<forall>c \<in> set (note_p ?st). isWhiteSpace c
                                 then ''Feeling '' @ moodString happy @ '' today''
                                 else trim (note_p ?st))"
    by blast
  show ?thesis
    unfolding r using n by (simp add: getJournalEntries_def)
qed

section \<open>Properties of the export\<close>

text \<open>
  C10. An entry whose location is present and empty is exported with \<open>Unknown\<close> as its
  last field, as an entry without location is: the row ends with the quoted literal.
\<close>

theorem empty_location_is_unknown:
  assumes \<open>location (weather entry) = Some ''''\<close>
  shows \<open>csvRow entry =
     ''"'' @ date entry @ ''","'' @ moodString (mood entry) @ ''","''
       @ replaceQuotes (note_e entry) @ ''","''
       @ numberToString (temp (weather entry)) @ [CHR 0xB0] @ ''C","''
       @ condition (weather entry) @ ''","Unknown"''
     \<and> csvRow entry = csvRow (entry \<lparr> weather := (weather entry) \<lparr> location := None \<rparr> \<rparr>)
     \<and> exportJournalEntries stringify currentDate [entry] csv
         = Inr \<lparr> fileName = ''moodmate-journal-'' @ currentDate @ ''.csv'',
                 dataStr = headers @ ''"'' @ date entry @ ''","'' @ moodString (mood entry) @ ''","''
                   @ replaceQuotes (note_e entry) @ ''","''
                   @ numberToString (temp (weather entry)) @ [CHR 0xB0] @ ''C","''
                   @ condition (weather entry) @ ''","Unknown"'',
                 mimeType = ''text/csv'' \<rparr>\<close>
  using assms by (simp add: csvRow_def locationOrUnknown_def exportJournalEntries_def)

theorem empty_location_is_unknown_witness:
  \<open>csvRow (exampleEntry happy ''ok'' 21 ''Clear'' (Some '''') 0)
     = ''"April 1, 2025","happy","ok","21'' @ [CHR 0xB0] @ ''C","Clear","Unknown"''\<close>
proof -
  have h: \<open>location (weather (exampleEntry happy ''ok'' 21 ''Clear'' (Some '''') 0)) = Some ''''\<close>
    by (simp add: exampleEntry_def)
  from empty_location_is_unknown [OF h, of exampleStringify "''2025-04-01''"]
  have \<open>csvRow (exampleEntry happy ''ok'' 21 ''Clear'' (Some '''') 0) =
     ''"'' @ date (exampleEntry happy ''ok'' 21 ''Clear'' (Some '''') 0) @ ''","''
       @ moodString (mood (exampleEntry happy ''ok'' 21 ''Clear'' (Some '''') 0)) @ ''","''
       @ replaceQuotes (note_e (exampleEntry happy ''ok'' 21 ''Clear'' (Some '''') 0)) @ ''","''
       @ numberToString (temp (weather (exampleEntry happy ''ok'' 21 ''Clear'' (Some '''') 0)))
       @ [CHR 0xB0] @ ''C","''
       @ condition (weather (exampleEntry happy ''ok'' 21 ''Clear'' (Some '''') 0)) @ ''","Unknown"''\<close>
    by (rule conjunct1)
  then show ?thesis
    by (simp add: exampleEntry_def replaceQuotes_def numberToString_def digits.simps)
qed

subsection \<open>Characters of the fields\<close>

lemma splitLines_nonempty: "splitLines s \<noteq> []"
  by (induction s) (auto split: list.splits)

lemma length_splitLines: "length (splitLines s) = Suc (count_list s (CHR 0x0A))"
  by (induction s) (auto split: list.splits simp: splitLines_nonempty)

lemma splitLines_no_LF: "CHR 0x0A \<notin> set s \<Longrightarrow> splitLines s = [s]"
  by (induction s) auto

lemma splitLines_append_LF:
  "CHR 0x0A \<notin> set a \<Longrightarrow> splitLines (a @ CHR 0x0A # b) = a # splitLines b"
  by (induction a) auto

lemma digit_in_digits: "k < 10 \<Longrightarrow> ''0123456789'' ! k \<in> set ''0123456789''"
  by (rule nth_mem) simp

lemma set_digits: "set (digits n) \<subseteq> set ''0123456789''"
proof (induction n rule: digits.induct)
  case (1 n)
  show ?case
  proof (cases "n < 10")
    case True
    then show ?thesis
      using digit_in_digits [of n] by (subst digits.simps) simp
  next
    case False
    have "n mod 10 < 10" by simp
    then have "''0123456789'' ! (n mod 10) \<in> set ''0123456789''"
      by (rule digit_in_digits)
    with False 1 show ?thesis
      by (subst digits.simps) simp
  qed
qed

lemma numberToString_chars:
  assumes "c \<in> set (numberToString i)"
  shows "c = CHR ''-'' \<or> c \<in> set ''0123456789''"
proof (cases "i < 0")
  case True
  with assms have "c = CHR ''-'' \<or> c \<in> set (digits (nat (- i)))"
    by (simp add: numberToString_def)
  then show ?thesis
    using set_digits [of "nat (- i)"] by blast
next
  case False
  with assms have "c \<in> set (digits (nat i))"
    by (simp add: numberToString_def)
  then show ?thesis
    using set_digits [of "nat i"] by blast
qed

lemma numberToString_no_LF_mem: "CHR 0x0A \<notin> set (numberToString i)"
proof
  assume "CHR 0x0A \<in> set (numberToString i)"
  then have "CHR 0x0A = CHR ''-'' \<or> CHR 0x0A \<in> set ''0123456789''"
    by (rule numberToString_chars)
  then show False by simp
qed

lemma numberToString_no_LF [simp]: "count_list (numberToString i) (CHR 0x0A) = 0"
  by (simp add: numberToString_no_LF_mem)

lemma numberToString_no_quote [simp]: "CHR 0x22 \<notin> set (numberToString i)"
proof
  assume "CHR 0x22 \<in> set (numberToString i)"
  then have "CHR 0x22 = CHR ''-'' \<or> CHR 0x22 \<in> set ''0123456789''"
    by (rule numberToString_chars)
  then show False by simp
qed

lemma moodString_no_LF [simp]: "count_list (moodString m) (CHR 0x0A) = 0"
  by (cases m) simp_all

lemma moodString_no_quote [simp]: "CHR 0x22 \<notin> set (moodString m)"
  by (cases m) simp_all

lemma replaceQuotes_LF [simp]:
  "count_list (replaceQuotes s) (CHR 0x0A) = count_list s (CHR 0x0A)"
  by (induction s) (simp_all add: replaceQuotes_def)

lemma replaceQuotes_id: "CHR 0x22 \<notin> set s \<Longrightarrow> replaceQuotes s = s"
  by (induction s) (auto simp: replaceQuotes_def)

subsection \<open>Rows and lines\<close>

text \<open>A row is its six fields, each between double quotes, with commas between them.\<close>

lemma csvRow_fields:
  \<open>csvRow entry =
     join '','' (map (\<lambda>f. ''"'' @ f @ ''"'')
       [date entry, moodString (mood entry), replaceQuotes (note_e entry),
        numberToString (temp (weather entry)) @ [CHR 0xB0] @ ''C'',
        condition (weather entry), locationOrUnknown (location (weather entry))])\<close>
  by (simp add: csvRow_def)

lemma count_LF_csvRow:
  "count_list (csvRow e) (CHR 0x0A)
     = count_list (date e) (CHR 0x0A) + count_list (note_e e) (CHR 0x0A)
       + count_list (condition (weather e)) (CHR 0x0A)
       + count_list (locationOrUnknown (location (weather e))) (CHR 0x0A)"
  by (simp add: csvRow_def)

lemma headers_lines: "splitLines (headers @ s)
   = ''Date,Mood,Note,Temperature,Weather Condition,Location'' # splitLines s"
  using splitLines_append_LF [of "''Date,Mood,Note,Temperature,Weather Condition,Location''" s]
  by (simp add: headers_def)

text \<open>
  Where no double quote occurs in the date, the condition and the location of any
  entry, the exported text is the CSV of the specification.
\<close>

lemma csvRow_spec:
  assumes "CHR 0x22 \<notin> set (date e)" and "CHR 0x22 \<notin> set (condition (weather e))"
    and "CHR 0x22 \<notin> set (locationOrUnknown (location (weather e)))"
  shows "csvRow e = join '','' (map specCsvField (csvFields e))"
  using assms
  by (simp add: csvRow_def csvFields_def specCsvField_def replaceQuotes_id
      replaceQuotes_def [of "[CHR 0xB0, CHR ''C'']"])

lemma csv_export_spec_without_quotes:
  assumes "entries \<noteq> []"
    and "\<forall>e \<in> set entries. CHR 0x22 \<notin> set (date e) \<and> CHR 0x22 \<notin> set (condition (weather e))
            \<and> CHR 0x22 \<notin> set (locationOrUnknown (location (weather e)))"
  shows "exportJournalEntries stringify currentDate entries csv
           = Inr \<lparr> fileName = ''moodmate-journal-'' @ currentDate @ ''.csv'',
                   dataStr = specCsv entries,
                   mimeType = ''text/csv'' \<rparr>"
proof -
  have eq: "map csvRow entries = map (\<lambda>entry. join '','' (map specCsvField (csvFields entry))) entries"
    using assms(2) by (intro map_cong refl csvRow_spec) auto
  show ?thesis
    using assms(1) unfolding exportJournalEntries_def specCsv_def headers_def eq by simp
qed

text \<open>
  C2. The export doubles the double quotes of the note only. An entry whose location is
  \<open>Little "Venice"\<close> and whose note is \<open>so "so"\<close> is exported with the note's quotes
  doubled and the location's quotes as they are, which is not the CSV of the
  specification.
\<close>

theorem quote_outside_note_not_escaped:
  \<open>exportJournalEntries exampleStringify ''2025-04-01''
      [exampleEntry sad ''so "so"'' 18 ''Rain'' (Some ''Little "Venice"'') 0] csv
     = Inr \<lparr> fileName = ''moodmate-journal-2025-04-01.csv'',
             dataStr = ''Date,Mood,Note,Temperature,Weather Condition,Location'' @ [CHR 0x0A]
               @ ''"April 1, 2025","sad","so ""so""","18'' @ [CHR 0xB0]
               @ ''C","Rain","Little "Venice""'',
             mimeType = ''text/csv'' \<rparr>
   \<and> specCsv [exampleEntry sad ''so "so"'' 18 ''Rain'' (Some ''Little "Venice"'') 0]
     = ''Date,Mood,Note,Temperature,Weather Condition,Location'' @ [CHR 0x0A]
         @ ''"April 1, 2025","sad","so ""so""","18'' @ [CHR 0xB0]
         @ ''C","Rain","Little ""Venice"""''
   \<and> exportJournalEntries exampleStringify ''2025-04-01''
      [exampleEntry sad ''so "so"'' 18 ''Rain'' (Some ''Little "Venice"'') 0] csv
     \<noteq> Inr \<lparr> fileName = ''moodmate-journal-2025-04-01.csv'',
             dataStr = specCsv [exampleEntry sad ''so "so"'' 18 ''Rain'' (Some ''Little "Venice"'') 0],
             mimeType = ''text/csv'' \<rparr>\<close>
  by (simp add: exportJournalEntries_def headers_def csvRow_def specCsv_def csvFields_def
      specCsvField_def exampleEntry_def replaceQuotes_def locationOrUnknown_def
      numberToString_def digits.simps)

text \<open>
  C8, as stated: the CSV export of a single entry has exactly two lines. A note typed
  over two lines gives three.
\<close>

theorem single_entry_three_lines_counterexample:
  \<open>exportedLines (exportJournalEntries exampleStringify ''2025-04-01''
      [exampleEntry happy (''a'' @ [CHR 0x0A] @ ''b'') 21 ''Clear'' None 0] csv)
     = [''Date,Mood,Note,Temperature,Weather Condition,Location'',
        ''"April 1, 2025","happy","a'',
        ''b","21'' @ [CHR 0xB0] @ ''C","Clear","Unknown"'']
   \<and> length (exportedLines (exportJournalEntries exampleStringify ''2025-04-01''
      [exampleEntry happy (''a'' @ [CHR 0x0A] @ ''b'') 21 ''Clear'' None 0] csv)) = 3\<close>
  by (simp add: exportedLines_def exportJournalEntries_def headers_def csvRow_def
      exampleEntry_def replaceQuotes_def locationOrUnknown_def numberToString_def digits.simps)

text \<open>
  C8, amended. The export of an empty list fails with the error "No entries to export",
  for either format. The CSV export of a single entry is the header line, a line feed
  and the row of the entry; its number of lines is two plus the number of line feeds in
  the entry's date, note, condition and location, so it is exactly the header line and
  the row when none of these contains a line feed.
\<close>

theorem export_empty_fails_single_row:
  "exportJournalEntries stringify currentDate [] fmt = Inl NoEntriesToExport
   \<and> exportJournalEntries stringify currentDate [e] csv
       = Inr \<lparr> fileName = ''moodmate-journal-'' @ currentDate @ ''.csv'',
               dataStr = headers @ csvRow e,
               mimeType = ''text/csv'' \<rparr>
   \<and> length (splitLines (headers @ csvRow e))
       = 2 + count_list (date e) (CHR 0x0A) + count_list (note_e e) (CHR 0x0A)
           + count_list (condition (weather e)) (CHR 0x0A)
           + count_list (locationOrUnknown (location (weather e))) (CHR 0x0A)
   \<and> (CHR 0x0A \<notin> set (date e) \<union> set (note_e e) \<union> set (condition (weather e))
                     \<union> set (locationOrUnknown (location (weather e)))
        \<longrightarrow> splitLines (headers @ csvRow e)
              = [''Date,Mood,Note,Temperature,Weather Condition,Location'', csvRow e])"
proof -
  have a: "exportJournalEntries stringify currentDate [] fmt = Inl NoEntriesToExport"
    by (simp add: exportJournalEntries_def)
  have b: "exportJournalEntries stringify currentDate [e] csv
       = Inr \<lparr> fileName = ''moodmate-journal-'' @ currentDate @ ''.csv'',
               dataStr = headers @ csvRow e,
               mimeType = ''text/csv'' \<rparr>"
    by (simp add: exportJournalEntries_def)
  have c: "length (splitLines (headers @ csvRow e))
       = 2 + count_list (date e) (CHR 0x0A) + count_list (note_e e) (CHR 0x0A)
           + count_list (condition (weather e)) (CHR 0x0A)
           + count_list (locationOrUnknown (location (weather e))) (CHR 0x0A)"
    by (simp add: headers_lines length_splitLines count_LF_csvRow)
  have d: "splitLines (headers @ csvRow e)
              = [''Date,Mood,Note,Temperature,Weather Condition,Location'', csvRow e]"
    if "CHR 0x0A \<notin> set (date e) \<union> set (note_e e) \<union> set (condition (weather e))
                     \<union> set (locationOrUnknown (location (weather e)))"
  proof -
    from that have "count_list (csvRow e) (CHR 0x0A) = 0"
      by (simp add: count_LF_csvRow)
    then have "CHR 0x0A \<notin> set (csvRow e)"
      by (simp add: count_list_0_iff)
    then show ?thesis
      by (simp add: headers_lines splitLines_no_LF)
  qed
  from a b c d show ?thesis by blast
qed

theorem export_empty_fails_single_row_witness:
  \<open>exportedLines (exportJournalEntries exampleStringify ''2025-04-01''
      [exampleEntry happy ''ok'' 21 ''Clear'' None 0] csv)
     = [''Date,Mood,Note,Temperature,Weather Condition,Location'',
        ''"April 1, 2025","happy","ok","21'' @ [CHR 0xB0] @ ''C","Clear","Unknown"'']
   \<and> exportJournalEntries exampleStringify ''2025-04-01'' [] csv = Inl NoEntriesToExport
   \<and> exportJournalEntries exampleStringify ''2025-04-01'' [] json = Inl NoEntriesToExport\<close>
proof -
  let ?e = "exampleEntry happy ''ok'' 21 ''Clear'' None 0"
  have h: "CHR 0x0A \<notin> set (date ?e) \<union> set (note_e ?e) \<union> set (condition (weather ?e))
                     \<union> set (locationOrUnknown (location (weather ?e)))"
    by (simp add: exampleEntry_def locationOrUnknown_def)
  have row: \<open>csvRow ?e = ''"April 1, 2025","happy","ok","21'' @ [CHR 0xB0] @ ''C","Clear","Unknown"''\<close>
    by (simp add: csvRow_def exampleEntry_def replaceQuotes_def locationOrUnknown_def
        numberToString_def digits.simps)
  from export_empty_fails_single_row [of exampleStringify "''2025-04-01''" csv ?e] h
  have "exportedLines (exportJournalEntries exampleStringify ''2025-04-01'' [?e] csv)
          = [''Date,Mood,Note,Temperature,Weather Condition,Location'', csvRow ?e]"
    by (simp add: exportedLines_def)
  moreover from export_empty_fails_single_row [of exampleStringify "''2025-04-01''" json ?e]
  have "exportJournalEntries exampleStringify ''2025-04-01'' [] json = Inl NoEntriesToExport"
    by blast
  moreover from export_empty_fails_single_row [of exampleStringify "''2025-04-01''" csv ?e]
  have "exportJournalEntries exampleStringify ''2025-04-01'' [] csv = Inl NoEntriesToExport"
    by blast
  ultimately show ?thesis
    using row by simp
qed

section \<open>Properties of the arithmetic on doubles\<close>

text \<open>
  Rounding to a double moves a number by at most the fraction \<open>2^-53\<close> of its magnitude, and
  not at all when the number has 53 significant bits or fewer. The integer nearest to a
  quotient \<open>p / n\<close> is therefore also the integer nearest to every number closer to it than
  \<open>1 / (2 * n)\<close>, unless \<open>p / n\<close> lies exactly halfway between two integers.
\<close>

lemma ilog2_bounds: "0 < n \<Longrightarrow> 2 ^ ilog2 n \<le> n \<and> n < 2 ^ Suc (ilog2 n)"
proof (induction n rule: ilog2.induct)
  case (1 n)
  show ?case
  proof (cases "n < 2")
    case True
    with "1.prems" have "n = 1" by simp
    then show ?thesis by (simp add: ilog2.simps)
  next
    case False
    then have pos: "0 < n div 2" by simp
    from "1.IH" [OF False pos]
    have lo: "2 ^ ilog2 (n div 2) \<le> n div 2" and hi: "n div 2 < 2 ^ Suc (ilog2 (n div 2))"
      by simp_all
    have e: "ilog2 n = Suc (ilog2 (n div 2))"
      using False by (subst ilog2.simps) simp
    from lo have "2 * 2 ^ ilog2 (n div 2) \<le> n" by linarith
    moreover from hi have "n < 2 * 2 ^ Suc (ilog2 (n div 2))" by linarith
    ultimately show ?thesis by (simp add: e)
  qed
qed

lemma exponentOf_lower:
  assumes "0 < a"
  shows "2 powi exponentOf a \<le> a"
proof (cases "1 \<le> a")
  case True
  then have "1 \<le> \<lfloor>a\<rfloor>" by (simp add: le_floor_iff)
  then have pos: "0 < nat \<lfloor>a\<rfloor>" by simp
  from ilog2_bounds [OF pos] have "2 ^ ilog2 (nat \<lfloor>a\<rfloor>) \<le> nat \<lfloor>a\<rfloor>" by blast
  then have "(of_nat (2 ^ ilog2 (nat \<lfloor>a\<rfloor>)) :: rat) \<le> of_nat (nat \<lfloor>a\<rfloor>)"
    by (simp only: of_nat_le_iff)
  also have "\<dots> = of_int \<lfloor>a\<rfloor>" using pos by simp
  also have "\<dots> \<le> a" by simp
  finally show ?thesis using True by (simp add: exponentOf_def)
next
  case False
  let ?N = "\<lceil>1 / a\<rceil>"
  let ?k = "ilog2 (nat (?N - 1))"
  from False assms have "1 < 1 / a" by (simp add: field_simps)
  then have "1 < ?N" by (simp add: less_ceiling_iff)
  then have pos: "0 < nat (?N - 1)" by simp
  from ilog2_bounds [OF pos] have "nat (?N - 1) < 2 ^ Suc ?k" by blast
  then have "int (nat (?N - 1)) < int (2 ^ Suc ?k)" by (simp only: of_nat_less_iff)
  moreover from \<open>1 < ?N\<close> have "0 \<le> ?N - 1" by linarith
  then have "int (nat (?N - 1)) = ?N - 1" by (rule nat_0_le)
  ultimately have "?N - 1 < int (2 ^ Suc ?k)" by metis
  then have "?N - 1 < 2 ^ Suc ?k" by simp
  then have "?N \<le> 2 ^ Suc ?k" by linarith
  then have "(of_int ?N :: rat) \<le> of_int (2 ^ Suc ?k)" by (simp only: of_int_le_iff)
  with le_of_int_ceiling [of "1 / a"] have "1 / a \<le> of_int (2 ^ Suc ?k)"
    by (rule order_trans)
  then have "1 / a \<le> 2 ^ Suc ?k"
    by simp
  then have "1 / 2 ^ Suc ?k \<le> a"
    using assms by (simp add: field_simps)
  moreover have "2 powi exponentOf a = (1 / 2 ^ Suc ?k :: rat)"
  proof -
    have "exponentOf a = - int (Suc ?k)"
      using False by (simp add: exponentOf_def)
    then have "2 powi exponentOf a = inverse ((2::rat) powi int (Suc ?k))"
      by (simp only: power_int_minus)
    then show ?thesis
      by (simp only: power_int_of_nat inverse_eq_divide)
  qed
  ultimately show ?thesis by simp
qed

lemma exponentOf_upper:
  assumes "0 < a"
  shows "a < 2 powi (exponentOf a + 1)"
proof (cases "1 \<le> a")
  case True
  then have "1 \<le> \<lfloor>a\<rfloor>" by (simp add: le_floor_iff)
  then have pos: "0 < nat \<lfloor>a\<rfloor>" by simp
  from ilog2_bounds [OF pos] have "nat \<lfloor>a\<rfloor> < 2 ^ Suc (ilog2 (nat \<lfloor>a\<rfloor>))" by blast
  then have "int (nat \<lfloor>a\<rfloor>) < int (2 ^ Suc (ilog2 (nat \<lfloor>a\<rfloor>)))" by (simp only: of_nat_less_iff)
  then have "\<lfloor>a\<rfloor> < 2 ^ Suc (ilog2 (nat \<lfloor>a\<rfloor>))" using pos by simp
  then have "a < of_int (2 ^ Suc (ilog2 (nat \<lfloor>a\<rfloor>)))" by (simp only: floor_less_iff)
  moreover have "2 powi (exponentOf a + 1) = (2 ^ Suc (ilog2 (nat \<lfloor>a\<rfloor>)) :: rat)"
  proof -
    have "exponentOf a + 1 = int (Suc (ilog2 (nat \<lfloor>a\<rfloor>)))"
      using True by (simp add: exponentOf_def)
    then show ?thesis by (simp only: power_int_of_nat)
  qed
  ultimately show ?thesis by simp
next
  case False
  let ?N = "\<lceil>1 / a\<rceil>"
  let ?k = "ilog2 (nat (?N - 1))"
  from False assms have "1 < 1 / a" by (simp add: field_simps)
  then have "1 < ?N" by (simp add: less_ceiling_iff)
  then have pos: "0 < nat (?N - 1)" by simp
  from ilog2_bounds [OF pos] have "2 ^ ?k \<le> nat (?N - 1)" by blast
  then have "int (2 ^ ?k) \<le> int (nat (?N - 1))" by (simp only: of_nat_le_iff)
  moreover from \<open>1 < ?N\<close> have "0 \<le> ?N - 1" by linarith
  then have "int (nat (?N - 1)) = ?N - 1" by (rule nat_0_le)
  ultimately have "int (2 ^ ?k) \<le> ?N - 1" by metis
  then have "2 ^ ?k \<le> ?N - 1" by simp
  then have "2 ^ ?k < ?N" by linarith
  then have "(of_int (2 ^ ?k) :: rat) < 1 / a" by (simp only: less_ceiling_iff)
  then have "a < 1 / 2 ^ ?k"
    using assms by (simp add: field_simps)
  moreover have "2 powi (exponentOf a + 1) = (1 / 2 ^ ?k :: rat)"
  proof -
    have "exponentOf a + 1 = - int ?k"
      using False by (simp add: exponentOf_def)
    then have "2 powi (exponentOf a + 1) = inverse ((2::rat) powi int ?k)"
      by (simp only: power_int_minus)
    then show ?thesis
      by (simp only: power_int_of_nat inverse_eq_divide)
  qed
  ultimately show ?thesis by simp
qed

lemma roundHalfEven_error: "\<bar>of_int (roundHalfEven m) - m\<bar> \<le> 1 / 2"
proof -
  define f where "f = \<lfloor>m\<rfloor>"
  have "of_int f \<le> m \<and> m < of_int (f + 1)"
    unfolding f_def by (rule floor_correct)
  then have f: "of_int f \<le> m" "m < of_int f + 1"
    by simp_all
  have "roundHalfEven m =
      (if m - of_int f < 1 / 2 then f else if 1 / 2 < m - of_int f then f + 1
       else if even f then f else f + 1)"
    by (simp add: roundHalfEven_def Let_def f_def)
  with f show ?thesis
    by (auto simp: abs_if)
qed

lemma roundHalfEven_of_int [simp]: "roundHalfEven (of_int k) = k"
  by (simp add: roundHalfEven_def)

lemma toDouble_error: "\<bar>toDouble q - q\<bar> \<le> \<bar>q\<bar> / 2 ^ 53"
proof (cases "q = 0")
  case True
  then show ?thesis by (simp add: toDouble_def)
next
  case False
  define a where "a = \<bar>q\<bar>"
  define ulp :: rat where "ulp = 2 powi (exponentOf a - 52)"
  define M where "M = roundHalfEven (a / ulp)"
  from False have a: "0 < a" by (simp add: a_def)
  have ulp: "0 < ulp" by (simp add: ulp_def)
  have "ulp * 2 ^ 52 = 2 powi exponentOf a"
    by (simp add: ulp_def power_int_diff)
  also have "\<dots> \<le> a" using a by (rule exponentOf_lower)
  finally have small: "ulp \<le> a / 2 ^ 52" by (simp add: field_simps)
  have td: "toDouble q = sgn q * (of_int M * ulp)"
    using False by (simp add: toDouble_def Let_def a_def ulp_def M_def)
  have q: "q = sgn q * a"
    by (simp add: a_def sgn_if)
  have "toDouble q - q = sgn q * (of_int M * ulp - a)"
    by (subst (2) q) (simp add: td algebra_simps)
  then have "\<bar>toDouble q - q\<bar> = \<bar>of_int M * ulp - a\<bar>"
    using False by (simp add: abs_mult sgn_if)
  also have "of_int M * ulp - a = (of_int M - a / ulp) * ulp"
    using ulp by (simp add: field_simps)
  also have "\<bar>\<dots>\<bar> = \<bar>of_int M - a / ulp\<bar> * ulp"
    using ulp by (simp add: abs_mult)
  also have "\<dots> \<le> 1 / 2 * ulp"
    using roundHalfEven_error [of "a / ulp"] ulp unfolding M_def
    by (intro mult_right_mono) simp_all
  also have "\<dots> \<le> 1 / 2 * (a / 2 ^ 52)"
    using small by simp
  also have "\<dots> = \<bar>q\<bar> / 2 ^ 53"
    by (simp add: a_def)
  finally show ?thesis .
qed


lemma toDouble_nonneg: "0 \<le> q \<Longrightarrow> 0 \<le> toDouble q"
  using toDouble_error [of q] by (simp add: abs_if field_simps split: if_splits)

lemma percent_error:
  fixes c n :: nat
  assumes "0 < n"
  shows "\<bar>jsTimes (jsDivide (of_nat c) (of_nat n)) 100 - 100 * of_nat c / of_nat n\<bar>
           \<le> (100 * of_nat c / of_nat n) * 3 / 2 ^ 53"
proof -
  define q :: rat where "q = of_nat c / of_nat n"
  define y where "y = toDouble q"
  define z where "z = toDouble (y * 100)"
  have q: "0 \<le> q" by (simp add: q_def)
  have y: "\<bar>y - q\<bar> \<le> q / 2 ^ 53"
    using toDouble_error [of q] q by (simp add: y_def)
  have y0: "0 \<le> y" unfolding y_def using q by (rule toDouble_nonneg)
  from y have y2: "y \<le> 2 * q" by (simp add: abs_if split: if_splits)
  have "\<bar>z - y * 100\<bar> \<le> \<bar>y * 100\<bar> / 2 ^ 53"
    unfolding z_def by (rule toDouble_error)
  then have z: "\<bar>z - y * 100\<bar> \<le> y * 100 / 2 ^ 53"
    using y0 by simp
  from y y2 z have "\<bar>z - 100 * q\<bar> \<le> (100 * q) * 3 / 2 ^ 53"
    by (simp add: abs_if split: if_splits)
  then show ?thesis
    by (simp add: z_def y_def q_def jsTimes_def jsDivide_def)
qed




section \<open>Properties of the mood distribution\<close>

subsection \<open>A stable sort keeps ties in their order\<close>

lemma insort_key_ties:
  fixes f :: "'a \<Rightarrow> 'b::linorder" and idx :: "'a \<Rightarrow> nat"
  assumes "\<forall>y \<in> set ys. idx x < idx y"
    and "sorted_wrt (\<lambda>a b. f a = f b \<longrightarrow> idx a < idx b) ys"
  shows "sorted_wrt (\<lambda>a b. f a = f b \<longrightarrow> idx a < idx b) (insort_key f x ys)"
  using assms
proof (induction ys)
  case Nil
  then show ?case by simp
next
  case (Cons y ys)
  show ?case
  proof (cases "f x \<le> f y")
    case True
    with Cons.prems show ?thesis by simp
  next
    case False
    then have "f y \<noteq> f x" by auto
    with False Cons show ?thesis
      by (auto simp: set_insort_key)
  qed
qed

lemma sort_key_ties:
  fixes f :: "'a \<Rightarrow> 'b::linorder" and idx :: "'a \<Rightarrow> nat"
  assumes "sorted_wrt (\<lambda>a b. idx a < idx b) xs"
  shows "sorted_wrt (\<lambda>a b. f a = f b \<longrightarrow> idx a < idx b) (sort_key f xs)"
  using assms
proof (induction xs)
  case Nil
  then show ?case by simp
next
  case (Cons x xs)
  then have "\<forall>y \<in> set (sort_key f xs). idx x < idx y"
    by simp
  moreover from Cons have "sorted_wrt (\<lambda>a b. f a = f b \<longrightarrow> idx a < idx b) (sort_key f xs)"
    by simp
  ultimately show ?case
    by (simp add: insort_key_ties)
qed

lemma sum_list_sort_key:
  fixes g :: "'a \<Rightarrow> 'c::comm_monoid_add" and f :: "'a \<Rightarrow> 'b::linorder"
  shows "sum_list (map g (sort_key f xs)) = sum_list (map g xs)"
proof -
  have "mset (map g (sort_key f xs)) = mset (map g xs)"
    by simp
  then have "sum_mset (mset (map g (sort_key f xs))) = sum_mset (mset (map g xs))"
    by (rule arg_cong)
  then show ?thesis
    by (simp only: sum_mset_sum_list)
qed

subsection \<open>Counting moods\<close>

lemma fold_mood_counts:
  "orZero (fold (\<lambda>entry acc. acc(mood entry \<mapsto> orZero (acc (mood entry)) + 1)) es acc m)
     = orZero (acc m) + length (filter (\<lambda>e. mood e = m) es)"
  by (induction es arbitrary: acc) (simp_all add: orZero_def)

lemma moodCountsOf_count:
  "orZero (moodCountsOf es m) = length (filter (\<lambda>e. mood e = m) es)"
  unfolding moodCountsOf_def fold_mood_counts by (simp add: orZero_def)

lemma mood_counts_total:
  "length (filter (\<lambda>e. mood e = happy) es) + length (filter (\<lambda>e. mood e = neutral) es)
     + length (filter (\<lambda>e. mood e = sad) es) + length (filter (\<lambda>e. mood e = angry) es)
     + length (filter (\<lambda>e. mood e = sick) es) = length es"
proof (induction es)
  case Nil
  then show ?case by simp
next
  case (Cons e es)
  then show ?case by (cases "mood e") simp_all
qed

lemma moodStats_eq:
  "moodStats es =
     sort_key (\<lambda>a. - percentage a)
       (map (\<lambda>m. \<lparr> mood_s = m,
                   count_s = length (filter (\<lambda>e. mood e = m) es),
                   percentage = (if es = [] then 0
                                 else jsTimes (jsDivide (of_nat (length (filter (\<lambda>e. mood e = m) es)))
                                                        (of_nat (length es))) 100) \<rparr>)
            allMoods)"
proof -
  have pct: "(if 0 < length es then A else 0) = (if es = [] then 0 else A)" for A :: rat
    by simp
  show ?thesis
    unfolding moodStats_def Let_def moodCountsOf_count pct ..
qed

lemma percentages_total:
  assumes "es \<noteq> []"
  shows "(\<Sum>m\<leftarrow>allMoods. 100 * of_nat (length (filter (\<lambda>e. mood e = m) es)) / (of_nat (length es) :: rat)) = 100"
proof -
  have n: "(of_nat (length es) :: rat) \<noteq> 0"
    using assms by simp
  have "(\<Sum>m\<leftarrow>allMoods. 100 * of_nat (length (filter (\<lambda>e. mood e = m) es)) / (of_nat (length es) :: rat))
      = 100 * of_nat (length (filter (\<lambda>e. mood e = happy) es) + length (filter (\<lambda>e. mood e = neutral) es)
     + length (filter (\<lambda>e. mood e = sad) es) + length (filter (\<lambda>e. mood e = angry) es)
     + length (filter (\<lambda>e. mood e = sick) es)) / of_nat (length es)"
    by (simp add: allMoods_def add_divide_distrib distrib_left)
  also have "\<dots> = 100 * of_nat (length es) / of_nat (length es)"
    by (simp only: mood_counts_total)
  also have "\<dots> = 100"
    using n by simp
  finally show ?thesis .
qed

lemma percentages_near_total:
  assumes "es \<noteq> []"
  shows "\<bar>(\<Sum>m\<leftarrow>allMoods. jsTimes (jsDivide (of_nat (length (filter (\<lambda>e. mood e = m) es)))
                                          (of_nat (length es))) 100) - 100\<bar>
           \<le> 300 / 2 ^ 53"
proof -
  define P where "P m = jsTimes (jsDivide (of_nat (length (filter (\<lambda>e. mood e = m) es)))
                                 (of_nat (length es))) 100" for m
  define X :: "Mood \<Rightarrow> rat"
    where "X m = 100 * of_nat (length (filter (\<lambda>e. mood e = m) es)) / of_nat (length es)" for m
  from assms have n: "0 < length es" by simp
  have e: "\<bar>P m - X m\<bar> \<le> X m * 3 / 2 ^ 53" for m
    unfolding P_def X_def by (rule percent_error [OF n])
  have X: "X happy + X neutral + X sad + X angry + X sick = 100"
    using percentages_total [OF assms] by (simp add: allMoods_def X_def)
  have "\<bar>P happy + P neutral + P sad + P angry + P sick
          - (X happy + X neutral + X sad + X angry + X sick)\<bar>
        \<le> \<bar>P happy - X happy\<bar> + \<bar>P neutral - X neutral\<bar> + \<bar>P sad - X sad\<bar>
            + \<bar>P angry - X angry\<bar> + \<bar>P sick - X sick\<bar>"
    by linarith
  also have "\<dots> \<le> X happy * 3 / 2 ^ 53 + X neutral * 3 / 2 ^ 53 + X sad * 3 / 2 ^ 53
            + X angry * 3 / 2 ^ 53 + X sick * 3 / 2 ^ 53"
    by (intro add_mono e)
  also have "\<dots> = (X happy + X neutral + X sad + X angry + X sick) * 3 / 2 ^ 53"
    by (simp add: algebra_simps add_divide_distrib)
  also have "\<dots> = 300 / 2 ^ 53"
    by (simp add: X)
  finally have "\<bar>P happy + P neutral + P sad + P angry + P sick - 100\<bar> \<le> 300 / 2 ^ 53"
    by (simp only: X)
  then show ?thesis
    by (simp add: allMoods_def P_def add.assoc)
qed

text \<open>
  C4, as stated: the percentage of a row equals \<open>100 * count / totalEntries\<close>. For two
  entries with the mood sick and one with the mood angry the row of sick has the double
  \<open>66.66666666666666\<close>, which is neither two thirds of 100 nor the double
  \<open>66.66666666666667\<close> that \<open>100 * 2 / 3\<close> is, and the row of angry has \<open>33.33333333333333\<close>, which
  is neither a third of 100 nor the double \<open>33.333333333333336\<close> that \<open>100 * 1 / 3\<close> is.
\<close>

theorem percentage_is_rounded_counterexample:
  "moodStats [exampleEntry sick ''a'' 20 ''Rain'' None 0, exampleEntry sick ''b'' 20 ''Rain'' None 0,
              exampleEntry angry ''c'' 20 ''Rain'' None 0]
     = [\<lparr> mood_s = sick, count_s = 2, percentage = 2345624805922133 / 35184372088832 \<rparr>,
        \<lparr> mood_s = angry, count_s = 1, percentage = 2345624805922133 / 70368744177664 \<rparr>,
        \<lparr> mood_s = happy, count_s = 0, percentage = 0 \<rparr>,
        \<lparr> mood_s = neutral, count_s = 0, percentage = 0 \<rparr>,
        \<lparr> mood_s = sad, count_s = 0, percentage = 0 \<rparr>]
   \<and> (2345624805922133 / 35184372088832 :: rat) \<noteq> 100 * 2 / 3
   \<and> (2345624805922133 / 70368744177664 :: rat) \<noteq> 100 * 1 / 3
   \<and> 2345624805922133 / 35184372088832 \<noteq> jsDivide (jsTimes 100 2) 3
   \<and> 2345624805922133 / 70368744177664 \<noteq> jsDivide (jsTimes 100 1) 3"
  by code_simp

text \<open>
  C4, amended. For every list of entries the mood distribution has five rows, one for
  each of the moods happy, neutral, sad, angry and sick, whether the mood occurs or not.
  The count of a row is the number of entries with its mood. Its percentage is the
  double \<open>(count / totalEntries) * 100\<close>, or 0 for the empty list; it differs from
  \<open>100 * count / totalEntries\<close> by no more than the fraction \<open>3 / 2^53\<close> of that number. The
  rows come by descending percentage, rows of equal percentage in the order in which the
  moods are enumerated. The percentages add up to 0 for the empty list and to 100 within
  \<open>300 / 2^53\<close> for a list with entries.
\<close>

theorem mood_distribution_rows:
  "length (moodStats es) = 5
   \<and> mset (map mood_s (moodStats es)) = mset [happy, neutral, sad, angry, sick]
   \<and> (\<forall>r \<in> set (moodStats es).
         count_s r = length (filter (\<lambda>e. mood e = mood_s r) es)
         \<and> percentage r
             = (if es = [] then 0
                else jsTimes (jsDivide (of_nat (count_s r)) (of_nat (length es))) 100)
         \<and> \<bar>percentage r - 100 * of_nat (count_s r) / of_nat (length es)\<bar>
             \<le> (100 * of_nat (count_s r) / of_nat (length es)) * 3 / 2 ^ 53)
   \<and> sorted_wrt (\<lambda>a b. percentage a \<ge> percentage b) (moodStats es)
   \<and> sorted_wrt (\<lambda>a b. percentage a = percentage b \<longrightarrow> moodIndex (mood_s a) < moodIndex (mood_s b))
        (moodStats es)
   \<and> (es = [] \<longrightarrow> sum_list (map percentage (moodStats es)) = 0)
   \<and> (es \<noteq> [] \<longrightarrow> \<bar>sum_list (map percentage (moodStats es)) - 100\<bar> \<le> 300 / 2 ^ 53)"
proof -
  have len: "length (moodStats es) = 5"
    unfolding moodStats_eq length_sort by (simp add: allMoods_def)
  have moods: "mset (map mood_s (moodStats es)) = mset [happy, neutral, sad, angry, sick]"
    unfolding moodStats_eq mset_map mset_sort by (simp add: allMoods_def)
  have err: "\<bar>(if es = [] then 0 else jsTimes (jsDivide (of_nat c) (of_nat (length es))) 100)
                - 100 * of_nat c / of_nat (length es)\<bar>
               \<le> (100 * of_nat c / of_nat (length es)) * 3 / 2 ^ 53" for c :: nat
  proof (cases "es = []")
    case True
    then show ?thesis by simp
  next
    case False
    then have "0 < length es" by simp
    from percent_error [OF this, of c] False show ?thesis by simp
  qed
  have rows: "\<forall>r \<in> set (moodStats es).
         count_s r = length (filter (\<lambda>e. mood e = mood_s r) es)
         \<and> percentage r
             = (if es = [] then 0
                else jsTimes (jsDivide (of_nat (count_s r)) (of_nat (length es))) 100)
         \<and> \<bar>percentage r - 100 * of_nat (count_s r) / of_nat (length es)\<bar>
             \<le> (100 * of_nat (count_s r) / of_nat (length es)) * 3 / 2 ^ 53"
    unfolding moodStats_eq set_sort using err by (auto simp: allMoods_def)
  have desc: "sorted_wrt (\<lambda>a b. percentage a \<ge> percentage b) (moodStats es)"
    unfolding moodStats_eq by (rule sort_descending)
  have ties: "sorted_wrt (\<lambda>a b. percentage a = percentage b
                  \<longrightarrow> moodIndex (mood_s a) < moodIndex (mood_s b)) (moodStats es)"
  proof -
    have "sorted_wrt (\<lambda>a b. - percentage a = - percentage b
                  \<longrightarrow> moodIndex (mood_s a) < moodIndex (mood_s b)) (moodStats es)"
      unfolding moodStats_eq
      by (rule sort_key_ties) (simp add: allMoods_def)
    then show ?thesis by simp
  qed
  have empty: "es = [] \<longrightarrow> sum_list (map percentage (moodStats es)) = 0"
    unfolding moodStats_eq sum_list_sort_key by (simp add: allMoods_def)
  have total: "es \<noteq> [] \<longrightarrow> \<bar>sum_list (map percentage (moodStats es)) - 100\<bar> \<le> 300 / 2 ^ 53"
  proof
    assume ne: "es \<noteq> []"
    from percentages_near_total [OF ne] ne
    show "\<bar>sum_list (map percentage (moodStats es)) - 100\<bar> \<le> 300 / 2 ^ 53"
      unfolding moodStats_eq sum_list_sort_key by (simp add: comp_def)
  qed
  from len moods rows desc ties empty total show ?thesis by (intro conjI)
qed

theorem mood_distribution_rows_witness:
  "moodStats [exampleEntry sad ''a'' 10 ''Rain'' None 0, exampleEntry sad ''b'' 12 ''Rain'' None 0,
              exampleEntry happy ''c'' 13 ''Rain'' None 0, exampleEntry happy ''d'' 20 ''Clear'' None 0]
     = [\<lparr> mood_s = happy, count_s = 2, percentage = 50 \<rparr>,
        \<lparr> mood_s = sad, count_s = 2, percentage = 50 \<rparr>,
        \<lparr> mood_s = neutral, count_s = 0, percentage = 0 \<rparr>,
        \<lparr> mood_s = angry, count_s = 0, percentage = 0 \<rparr>,
        \<lparr> mood_s = sick, count_s = 0, percentage = 0 \<rparr>]
   \<and> \<bar>sum_list (map percentage
        (moodStats [exampleEntry sad ''a'' 10 ''Rain'' None 0, exampleEntry sad ''b'' 12 ''Rain'' None 0,
              exampleEntry happy ''c'' 13 ''Rain'' None 0, exampleEntry happy ''d'' 20 ''Clear'' None 0]))
       - 100\<bar> \<le> 300 / 2 ^ 53"
proof -
  let ?es = "[exampleEntry sad ''a'' 10 ''Rain'' None 0, exampleEntry sad ''b'' 12 ''Rain'' None 0,
              exampleEntry happy ''c'' 13 ''Rain'' None 0, exampleEntry happy ''d'' 20 ''Clear'' None 0]"
  have ev: "moodStats ?es
     = [\<lparr> mood_s = happy, count_s = 2, percentage = 50 \<rparr>,
        \<lparr> mood_s = sad, count_s = 2, percentage = 50 \<rparr>,
        \<lparr> mood_s = neutral, count_s = 0, percentage = 0 \<rparr>,
        \<lparr> mood_s = angry, count_s = 0, percentage = 0 \<rparr>,
        \<lparr> mood_s = sick, count_s = 0, percentage = 0 \<rparr>]"
    by code_simp
  have ne: "?es \<noteq> []" by simp
  from mood_distribution_rows [of ?es] ne
  have "\<bar>sum_list (map percentage (moodStats ?es)) - 100\<bar> \<le> 300 / 2 ^ 53"
    by blast
  with ev show ?thesis by (intro conjI)
qed

section \<open>Properties of the weather correlation\<close>

subsection \<open>Groups by condition\<close>






subsection \<open>The dominant mood of a group\<close>




















end
